theory Spec2Isabelle
  imports Complex_Main "HOL-Library.Multiset"
begin

section \<open>Strings\<close>

text \<open>
  A JavaScript string is a sequence of UTF-16 code units. The model covers the strings
  whose code units lie in U+0000..U+00FF: a \<^typ>\<open>char\<close> is the code unit with that
  number, and \<^const>\<open>length\<close> is the \<^verbatim>\<open>.length\<close> of the string. On this range
  \<^verbatim>\<open>String.prototype.toLowerCase\<close> maps a string to one of the same length, unit by
  unit: A..Z (65..90) and the Latin-1 capitals U+00C0..U+00DE other than the
  multiplication sign U+00D7 move up by 32, every other unit stays.
\<close>

definition toLowerChar :: "char \<Rightarrow> char" where
  "toLowerChar c =
     (let n = (of_char c :: nat)
      in if (65 \<le> n \<and> n \<le> 90) \<or> (192 \<le> n \<and> n \<le> 222 \<and> n \<noteq> 215)
         then char_of (n + 32) else c)"

definition toLowerCase :: "string \<Rightarrow> string" where
  "toLowerCase s = map toLowerChar s"

text \<open>The character class \<^verbatim>\<open>[A-Z]\<close> of a regular expression without flags \<^verbatim>\<open>i\<close>, \<^verbatim>\<open>u\<close>.\<close>

definition isUpperAZ :: "char \<Rightarrow> bool" where
  "isUpperAZ c = (65 \<le> (of_char c :: nat) \<and> (of_char c :: nat) \<le> 90)"

text \<open>
  \<^verbatim>\<open>text.startsWith(p)\<close> and \<^verbatim>\<open>text.includes(p)\<close>: \<open>p\<close> occurs in \<open>text\<close> at position 0,
  respectively at some position (\<open>str_includes_iff\<close> below). The second is named
  \<open>str_includes\<close>, since \<open>includes\<close> is a keyword of Isabelle.
\<close>

fun startsWith :: "string \<Rightarrow> string \<Rightarrow> bool" where
  "startsWith t [] = True"
| "startsWith [] (p # ps) = False"
| "startsWith (c # cs) (p # ps) = (c = p \<and> startsWith cs ps)"

fun str_includes :: "string \<Rightarrow> string \<Rightarrow> bool" where
  "str_includes [] p = (p = [])"
| "str_includes (c # cs) p = (startsWith (c # cs) p \<or> str_includes cs p)"

text \<open>\<^verbatim>\<open>Array.prototype.some\<close>: the predicate is tried from the left until it holds.\<close>

fun some :: "'a list \<Rightarrow> ('a \<Rightarrow> bool) \<Rightarrow> bool" where
  "some [] f = False"
| "some (x # xs) f = (if f x then True else some xs f)"

section \<open>Data model (types/index.ts)\<close>

datatype EmailCategory =
    INTERESTED
  | MEETING_BOOKED
  | NOT_INTERESTED
  | SPAM
  | OUT_OF_OFFICE
  | UNCATEGORIZED

text \<open>
  The interface \<^verbatim>\<open>Email\<close>. The fields \<^verbatim>\<open>id\<close>, \<^verbatim>\<open>from\<close> and \<^verbatim>\<open>to\<close> are named
  \<open>email_id\<close>, \<open>email_from\<close> and \<open>email_to\<close> here (the source's names are taken in
  Isabelle); \<^verbatim>\<open>date\<close> is a time stamp in milliseconds; the optional fields are options.
\<close>

record Email =
  email_id :: string
  accountId :: string
  folder :: string
  email_from :: string
  email_to :: "string list"
  subject :: string
  body :: string
  date :: int
  uid :: nat
  category :: "EmailCategory option"
  html :: "string option"

section \<open>Categorizer (services/categorization.service.ts)\<close>

definition outOfOfficePatterns :: "string list" where
  "outOfOfficePatterns =
    [''out of office'',
     ''out of the office'',
     ''ooo'',
     ''automatic reply'',
     ''auto reply'',
     ''away from office'',
     ''on vacation'',
     ''on leave'',
     ''currently unavailable'',
     ''away from my desk'',
     ''not in the office'',
     ''limited access to email'']"

definition isOutOfOffice :: "string \<Rightarrow> bool" where
  "isOutOfOffice text = some outOfOfficePatterns (\<lambda>pattern. str_includes text pattern)"

definition spamPatterns :: "string list" where
  "spamPatterns =
    [''congratulations you won'',
     ''claim your prize'',
     ''click here now'',
     ''limited time offer'',
     ''act now'',
     ''free money'',
     ''nigerian prince'',
     ''verify your account'',
     ''suspended account'',
     ''unusual activity'',
     ''confirm your password'',
     ''you have been selected'',
     ''winner'',
     ''lottery'',
     ''casino'',
     ''viagra'',
     ''pharmacy'',
     ''weight loss'',
     ''make money fast'',
     ''work from home'',
     ''no credit check'',
     ''refinance'']"

text \<open>
  A JavaScript number as far as \<^verbatim>\<open>isSpam\<close> needs it: the quotient of two lengths is a
  ratio, positive infinity, or NaN for \<^verbatim>\<open>0 / 0\<close>; every comparison with NaN is false.
  The ratio is kept exact: a quotient \<open>c / n\<close> of lengths with \<open>2 * c > n\<close> exceeds one half
  by at least \<open>1 / (2 * n)\<close>, which rounding to a double cannot remove for any length a
  string can have.
\<close>

datatype jsnum = NaN | PosInf | Num rat

definition js_div :: "nat \<Rightarrow> nat \<Rightarrow> jsnum" where
  "js_div a b =
     (if b = 0 then (if a = 0 then NaN else PosInf)
      else Num (of_nat a / of_nat b))"

fun js_gt :: "jsnum \<Rightarrow> rat \<Rightarrow> bool" where
  "js_gt NaN r = False"
| "js_gt PosInf r = True"
| "js_gt (Num q) r = (q > r)"

definition hasSpamPattern :: "string \<Rightarrow> bool" where
  "hasSpamPattern text = some spamPatterns (\<lambda>pattern. str_includes text pattern)"

definition capsPercentage :: "Email \<Rightarrow> jsnum" where
  "capsPercentage email =
     js_div (length (filter isUpperAZ (subject email))) (length (subject email))"

definition excessiveCaps :: "Email \<Rightarrow> bool" where
  "excessiveCaps email =
     (js_gt (capsPercentage email) (1 / 2) \<and> length (subject email) > 10)"

definition suspiciousFrom :: "Email \<Rightarrow> bool" where
  "suspiciousFrom email =
     (str_includes (email_from email) ''noreply'' \<or>
      str_includes (email_from email) ''no-reply'' \<or>
      \<not> str_includes (email_from email) ''@'')"

definition isSpam :: "string \<Rightarrow> Email \<Rightarrow> bool" where
  "isSpam text email =
     (hasSpamPattern text \<or> (excessiveCaps email \<and> suspiciousFrom email))"

definition meetingBookedPatterns :: "string list" where
  "meetingBookedPatterns =
    [''meeting confirmed'',
     ''meeting scheduled'',
     ''meeting booked'',
     ''calendar invitation'',
     ''event invitation'',
     ''has invited you'',
     ''meeting invite'',
     ''scheduled a meeting'',
     ''accepted your meeting'',
     ''meeting accepted'',
     ''zoom meeting'',
     ''google meet'',
     ''teams meeting'',
     ''calendar event'',
     ''appointment confirmed'',
     ''scheduled for'',
     ''meeting on'',
     ''see you at'']"

definition isMeetingBooked :: "string \<Rightarrow> bool" where
  "isMeetingBooked text = some meetingBookedPatterns (\<lambda>pattern. str_includes text pattern)"

definition interestedPatterns :: "string list" where
  "interestedPatterns =
    [''interested'',
     ''would like to know more'',
     ''tell me more'',
     ''sounds interesting'',
     ''sounds good'',
     ''looks promising'',
     ''let's discuss'',
     ''let's talk'',
     ''let's schedule'',
     ''can we talk'',
     ''would like to discuss'',
     ''want to learn more'',
     ''please share more'',
     ''send me more information'',
     ''more details'',
     ''please call'',
     ''looking forward'',
     ''excited to'',
     ''great opportunity'',
     ''resume shortlisted'',
     ''profile shortlisted'',
     ''congratulations'',
     ''move forward'',
     ''next steps'',
     ''interview'',
     ''technical round'',
     ''when are you available'',
     ''available for a call'',
     ''schedule a call'',
     ''let's connect'']"

definition isInterested :: "string \<Rightarrow> bool" where
  "isInterested text = some interestedPatterns (\<lambda>pattern. str_includes text pattern)"

definition notInterestedPatterns :: "string list" where
  "notInterestedPatterns =
    [''not interested'',
     ''no longer interested'',
     ''not a good fit'',
     ''not the right fit'',
     ''pass on this'',
     ''decline'',
     ''not at this time'',
     ''maybe later'',
     ''not right now'',
     ''thank you for your interest'',
     ''we have decided'',
     ''went with another'',
     ''selected another candidate'',
     ''position has been filled'',
     ''no thank'',
     ''unsubscribe'',
     ''remove me'',
     ''stop sending'',
     ''not hiring'',
     ''budget constraints'',
     ''unfortunately'',
     ''regret to inform'',
     ''unable to proceed'']"

definition isNotInterested :: "string \<Rightarrow> bool" where
  "isNotInterested text = some notInterestedPatterns (\<lambda>pattern. str_includes text pattern)"

text \<open>The text every rule reads: \<^verbatim>\<open>`${email.subject} ${email.body}`.toLowerCase()\<close>.\<close>

definition lowerCasedText :: "Email \<Rightarrow> string" where
  "lowerCasedText email = toLowerCase (subject email @ '' '' @ body email)"

definition categorizeEmail :: "Email \<Rightarrow> EmailCategory" where
  "categorizeEmail email =
     (let text = lowerCasedText email
      in if isOutOfOffice text then OUT_OF_OFFICE
         else if isSpam text email then SPAM
         else if isMeetingBooked text then MEETING_BOOKED
         else if isInterested text then INTERESTED
         else if isNotInterested text then NOT_INTERESTED
         else UNCATEGORIZED)"

text \<open>
  The reading of the rule list in the specification: a phrase rule holds when one of its
  phrases occurs in the text, and the category is that of the first rule that holds.
\<close>

definition spec_matches :: "string list \<Rightarrow> string \<Rightarrow> bool" where
  "spec_matches patterns text = (\<exists>p \<in> set patterns. str_includes text p)"


text \<open>
  An uppercase letter in the wording of the specification: a letter that has a
  different lower-case form. Among the code units of the model these are A..Z and the
  accented capitals U+00C0..U+00DE; the class \<^verbatim>\<open>[A-Z]\<close> of the code has only the first.
\<close>

definition spec_isUppercase :: "char \<Rightarrow> bool" where
  "spec_isUppercase c = (toLowerChar c \<noteq> c)"


definition interviewEmail :: Email where
  "interviewEmail =
     \<lparr>email_id = ''account1-2'', accountId = ''account1'', folder = ''INBOX'',
      email_from = ''hr@corp.example'', email_to = [''me@mail.example''],
      subject = ''Interview scheduled - Backend Engineer'',
      body = ''Let's discuss next steps, are you available for a call?'',
      date = 0, uid = 2, category = None, html = None\<rparr>"

definition winningOfferEmail :: Email where
  "winningOfferEmail =
     \<lparr>email_id = ''account1-3'', accountId = ''account1'', folder = ''INBOX'',
      email_from = ''noreply@bulk.example'', email_to = [''me@mail.example''],
      subject = ''WINNING OFFER!!'', body = [],
      date = 0, uid = 3, category = None, html = None\<rparr>"

definition emptySubjectEmail :: Email where
  "emptySubjectEmail =
     \<lparr>email_id = ''account1-4'', accountId = ''account1'', folder = ''INBOX'',
      email_from = ''noreply'', email_to = [],
      subject = [], body = ''Hello there'',
      date = 0, uid = 4, category = None, html = None\<rparr>"

definition accentCapsEmail :: Email where
  "accentCapsEmail =
     \<lparr>email_id = ''account1-6'', accountId = ''account1'', folder = ''INBOX'',
      email_from = ''noreply@bulk.example'', email_to = [''me@mail.example''],
      subject = replicate 11 (CHR 0xC0), body = [],
      date = 0, uid = 6, category = None, html = None\<rparr>"

section \<open>Reply retrieval engine (services/rag.service.ts)\<close>

text \<open>
  The interface \<^verbatim>\<open>ContextDocument\<close>; its fields \<^verbatim>\<open>id\<close> and \<^verbatim>\<open>text\<close> are named
  \<open>doc_id\<close> and \<open>doc_text\<close>.
\<close>

record ContextDocument =
  doc_id :: string
  doc_text :: string
  embedding :: "rat list option"

text \<open>
  White space as \<^verbatim>\<open>\s\<close> matches it among the code units below 256: tab, line feed,
  vertical tab, form feed, carriage return, space and the no-break space.
\<close>

definition isSpace :: "char \<Rightarrow> bool" where
  "isSpace c = ((of_char c :: nat) \<in> {9, 10, 11, 12, 13, 32, 160})"

text \<open>
  \<^verbatim>\<open>s.split(/\s+/)\<close>: the pieces of \<open>s\<close> between the maximal runs of white space. A
  string without white space (the empty one too) is its only piece; a run at the start
  or at the end leaves an empty piece before or after it.
\<close>

function splitWs :: "string \<Rightarrow> string list" where
  "splitWs s =
     (case dropWhile (\<lambda>c. \<not> isSpace c) s of
        [] \<Rightarrow> [s]
      | c # rest \<Rightarrow> takeWhile (\<lambda>c. \<not> isSpace c) s # splitWs (dropWhile isSpace rest))"
  by pat_completeness auto
termination
proof (relation "measure length")
  show "wf (measure length)" by simp
next
  fix s :: string and c rest
  assume "dropWhile (\<lambda>c. \<not> isSpace c) s = c # rest"
  then have "length (c # rest) \<le> length s"
    by (metis length_dropWhile_le)
  moreover have "length (dropWhile isSpace rest) \<le> length rest"
    by (rule length_dropWhile_le)
  ultimately show "(dropWhile isSpace rest, s) \<in> measure length" by simp
qed

declare splitWs.simps [simp del]

text \<open>\<^verbatim>\<open>Array.prototype.includes\<close> and \<^verbatim>\<open>Array.prototype.join\<close> on arrays of strings.\<close>

definition arr_includes :: "'a list \<Rightarrow> 'a \<Rightarrow> bool" where
  "arr_includes xs x = (x \<in> set xs)"

fun join :: "string list \<Rightarrow> string \<Rightarrow> string" where
  "join [] sep = []"
| "join [x] sep = x"
| "join (x # y # ys) sep = x @ sep @ join (y # ys) sep"

text \<open>
  The score is the quotient of two array lengths, kept as an exact ratio. The divisor is
  at least 1, since \<^verbatim>\<open>split\<close> returns at least one piece.
\<close>

definition calculateSimilarity :: "string \<Rightarrow> string \<Rightarrow> rat" where
  "calculateSimilarity text1 text2 =
     (let words1 = splitWs (toLowerCase text1);
          words2 = splitWs (toLowerCase text2);
          common = filter (\<lambda>word. arr_includes words2 word) words1
      in of_nat (length common) / of_nat (max (length words1) (length words2)))"

text \<open>
  \<^verbatim>\<open>Array.prototype.sort\<close> with a comparison function: the order is the one in which
  \<open>a\<close> precedes \<open>b\<close> when \<open>cmp a b < 0\<close>, and elements that compare equal keep their
  order (the sort is stable since ECMAScript 2019). For a comparison function that is a
  difference of keys there is one such order, computed here by insertion from the right.
\<close>

fun sort_insert :: "('a \<Rightarrow> 'a \<Rightarrow> rat) \<Rightarrow> 'a \<Rightarrow> 'a list \<Rightarrow> 'a list" where
  "sort_insert cmp x [] = [x]"
| "sort_insert cmp x (y # ys) =
     (if cmp x y \<le> 0 then x # y # ys else y # sort_insert cmp x ys)"

fun js_sort :: "('a \<Rightarrow> 'a \<Rightarrow> rat) \<Rightarrow> 'a list \<Rightarrow> 'a list" where
  "js_sort cmp [] = []"
| "js_sort cmp (x # xs) = sort_insert cmp x (js_sort cmp xs)"

record ScoredDocument =
  doc :: ContextDocument
  score :: rat

text \<open>
  The state of a \<^verbatim>\<open>RAGService\<close>: the generation client (absent without an API key) and
  the context documents. Of the client the model keeps what
  \<^verbatim>\<open>chat.completions.create\<close> does with the prompt: it throws, or it returns the
  choices, each with a content that is a string or null.
\<close>

datatype completion = Throws | Choices "string option list"

record RAGService =
  openai :: "(string \<Rightarrow> completion) option"
  contextDocs :: "ContextDocument list"

text \<open>
  \<^verbatim>\<open>initializeVectorDB\<close>, given \<^verbatim>\<open>config.productContext\<close> (read from the environment),
  and \<^verbatim>\<open>addContextDocument\<close>; writing the documents to the file is left out.
\<close>

definition initializeVectorDB :: "string \<Rightarrow> RAGService \<Rightarrow> RAGService" where
  "initializeVectorDB productContext rag =
     rag\<lparr>contextDocs :=
       [\<lparr>doc_id = ''product_context'', doc_text = productContext, embedding = None\<rparr>,
        \<lparr>doc_id = ''meeting_link'',
         doc_text = ''For scheduling meetings, use this link: https://cal.com/example'',
         embedding = None\<rparr>,
        \<lparr>doc_id = ''availability'',
         doc_text = ''I am available for meetings and discussions. Please feel free to book a time slot that works for you.'',
         embedding = None\<rparr>,
        \<lparr>doc_id = ''interest_response'',
         doc_text = ''Thank you for your interest! I would be happy to discuss this opportunity further.'',
         embedding = None\<rparr>,
        \<lparr>doc_id = ''interview_ready'',
         doc_text = ''Thank you for considering my profile. I am available for interviews and technical discussions.'',
         embedding = None\<rparr>]\<rparr>"

definition addContextDocument :: "string \<Rightarrow> string \<Rightarrow> RAGService \<Rightarrow> RAGService" where
  "addContextDocument i t rag =
     rag\<lparr>contextDocs := contextDocs rag @ [\<lparr>doc_id = i, doc_text = t, embedding = None\<rparr>]\<rparr>"

definition scoredDocs :: "RAGService \<Rightarrow> string \<Rightarrow> ScoredDocument list" where
  "scoredDocs rag emailText =
     map (\<lambda>d. \<lparr>doc = d, score = calculateSimilarity emailText (doc_text d)\<rparr>) (contextDocs rag)"

definition retrieveRelevantContext :: "RAGService \<Rightarrow> string \<Rightarrow> string list" where
  "retrieveRelevantContext rag emailText =
     (let scored = scoredDocs rag emailText;
          sorted = js_sort (\<lambda>a b. score b - score a) scored
      in map (\<lambda>item. doc_text (doc item)) (take 3 sorted))"

definition interviewTemplate :: string where
  "interviewTemplate =
     ''Thank you for reaching out! I'm very interested in discussing this '' @
     ''opportunity further. I'm available for an interview at your '' @
     ''convenience. Please feel free to book a time slot that works best for '' @
     ''you: https://cal.com/example\<newline>\<newline>'' @
     ''Looking forward to speaking with you!\<newline>\<newline>'' @
     ''Best regards''"

definition shortlistedTemplate :: string where
  "shortlistedTemplate =
     ''Thank you for considering my profile! I'm excited about this '' @
     ''opportunity and would be happy to proceed with the next steps. \<newline>\<newline>'' @
     ''I'm available for an interview or discussion at your convenience. You '' @
     ''can book a time slot here: https://cal.com/example\<newline>\<newline>'' @
     ''Looking forward to connecting!\<newline>\<newline>'' @
     ''Best regards''"

definition interestTemplate :: string where
  "interestTemplate =
     ''Thank you for your interest! I would be delighted to discuss this '' @
     ''opportunity in more detail. \<newline>\<newline>'' @
     ''I'm available for a call or meeting. Please feel free to schedule a '' @
     ''time that works for you: https://cal.com/example\<newline>\<newline>'' @
     ''Best regards''"

definition technicalTemplate :: string where
  "technicalTemplate =
     ''Thank you for your email! I'd be happy to discuss my technical '' @
     ''background and experience in detail. \<newline>\<newline>'' @
     ''I'm available for a technical discussion at your convenience. You can '' @
     ''schedule a meeting here: https://cal.com/example\<newline>\<newline>'' @
     ''Looking forward to our conversation!\<newline>\<newline>'' @
     ''Best regards''"

definition defaultTemplate :: string where
  "defaultTemplate =
     ''Thank you for reaching out! I appreciate your interest and would be '' @
     ''happy to discuss this further.\<newline>\<newline>'' @
     ''I'm available for a call or meeting. Please schedule a time that works '' @
     ''for you: https://cal.com/example\<newline>\<newline>'' @
     ''Best regards''"

definition promptHead :: string where
  "promptHead =
     ''You are an AI assistant helping to draft professional email replies.\<newline>\<newline>'' @
     ''Context about the user:\<newline>''"

definition promptTail :: string where
  "promptTail =
     ''\<newline>\<newline>'' @
     ''Generate a professional, concise reply to this email. The reply should:\<newline>'' @
     ''1. Be friendly and professional\<newline>'' @
     ''2. Address the main points in the email\<newline>'' @
     ''3. Include relevant information from the context (like meeting links if '' @
     ''discussing scheduling)\<newline>'' @
     ''4. Be concise (2-4 sentences)\<newline>'' @
     ''5. End with a clear call-to-action if needed\<newline>\<newline>'' @
     ''Reply:''"

text \<open>\<^verbatim>\<open>generateWithRules\<close>: the first key group with a key occurring in the text decides.\<close>

definition generateWithRules :: "Email \<Rightarrow> string list \<Rightarrow> string" where
  "generateWithRules email context =
     (let emailText = toLowerCase (subject email @ '' '' @ body email)
      in if str_includes emailText ''interview'' \<or>
            str_includes emailText ''schedule'' \<or>
            str_includes emailText ''available'' \<or>
            str_includes emailText ''when are you free''
         then interviewTemplate
         else if str_includes emailText ''shortlisted'' \<or>
                 str_includes emailText ''selected'' \<or>
                 str_includes emailText ''congratulations''
         then shortlistedTemplate
         else if str_includes emailText ''interested'' \<or>
                 str_includes emailText ''opportunity'' \<or>
                 str_includes emailText ''position''
         then interestTemplate
         else if str_includes emailText ''technical'' \<or>
                 str_includes emailText ''skills'' \<or>
                 str_includes emailText ''experience''
         then technicalTemplate
         else defaultTemplate)"

definition buildPrompt :: "Email \<Rightarrow> string list \<Rightarrow> string" where
  "buildPrompt email context =
     promptHead @ join context ''\<newline>\<newline>'' @
     ''\<newline>\<newline>Email received:\<newline>From: '' @ email_from email @
     ''\<newline>Subject: '' @ subject email @
     ''\<newline>Body: '' @ body email @ promptTail"

text \<open>
  What a JavaScript function body can do: return a value or throw. The body of the
  \<^verbatim>\<open>try\<close> block of \<^verbatim>\<open>generateWithOpenAI\<close> throws when the client does, and when
  \<^verbatim>\<open>choices[0]\<close> is undefined; \<^verbatim>\<open>content || ...\<close> takes the rule-based reply for
  the contents null and "".
\<close>

datatype js_error = ApiError | TypeError | ElasticsearchError | HttpError

definition generateWithOpenAI_try ::
  "(string \<Rightarrow> completion) \<Rightarrow> Email \<Rightarrow> string list \<Rightarrow> js_error + string" where
  "generateWithOpenAI_try create email context =
     (case create (buildPrompt email context) of
        Throws \<Rightarrow> Inl ApiError
      | Choices [] \<Rightarrow> Inl TypeError
      | Choices (content # _) \<Rightarrow>
          (case content of
             None \<Rightarrow> Inr (generateWithRules email context)
           | Some s \<Rightarrow> Inr (if s = [] then generateWithRules email context else s)))"

definition generateWithOpenAI ::
  "(string \<Rightarrow> completion) \<Rightarrow> Email \<Rightarrow> string list \<Rightarrow> js_error + string" where
  "generateWithOpenAI create email context =
     (case generateWithOpenAI_try create email context of
        Inl error \<Rightarrow> Inr (generateWithRules email context)
      | Inr reply \<Rightarrow> Inr reply)"

definition generateReply :: "RAGService \<Rightarrow> Email \<Rightarrow> js_error + string" where
  "generateReply rag email =
     (let emailText = subject email @ '' '' @ body email;
          relevantContext = retrieveRelevantContext rag emailText
      in case openai rag of
           Some create \<Rightarrow> generateWithOpenAI create email relevantContext
         | None \<Rightarrow> Inr (generateWithRules email relevantContext))"

text \<open>
  The reading of the specification. The tokens of a text are the set of its lower-cased
  pieces, the score is the size of the intersection over the larger of the two sizes;
  the rule-based reply is selected by the key groups as the specification lists them.
\<close>

definition spec_tokens :: "string \<Rightarrow> string set" where
  "spec_tokens a = set (splitWs (toLowerCase a))"

definition spec_similarity :: "string \<Rightarrow> string \<Rightarrow> rat" where
  "spec_similarity a b =
     of_nat (card (spec_tokens a \<inter> spec_tokens b)) /
     of_nat (max (card (spec_tokens a)) (card (spec_tokens b)))"

definition spec_selectTemplate :: "string list \<Rightarrow> string \<Rightarrow> string" where
  "spec_selectTemplate firstKeys t =
     (if \<exists>k \<in> set firstKeys. str_includes t k then interviewTemplate
      else if \<exists>k \<in> set [''shortlisted'', ''selected'', ''congratulations''].
                str_includes t k then shortlistedTemplate
      else if \<exists>k \<in> set [''interested'', ''opportunity'', ''position''].
                str_includes t k then interestTemplate
      else if \<exists>k \<in> set [''technical'', ''skills'', ''experience''].
                str_includes t k then technicalTemplate
      else defaultTemplate)"

text \<open>
  The generation collaborator is absent, fails (the call throws, or the answer has no
  first choice to read), or returns empty content (null or "").
\<close>

definition spec_degraded :: "RAGService \<Rightarrow> Email \<Rightarrow> bool" where
  "spec_degraded rag email =
     (case openai rag of
        None \<Rightarrow> True
      | Some create \<Rightarrow>
          (case create (buildPrompt email
                  (retrieveRelevantContext rag (subject email @ '' '' @ body email))) of
             Throws \<Rightarrow> True
           | Choices [] \<Rightarrow> True
           | Choices (content # _) \<Rightarrow> content = None \<or> content = Some []))"

text \<open>Examples for the reply engine.\<close>

definition freeEmail :: Email where
  "freeEmail =
     \<lparr>email_id = ''account1-5'', accountId = ''account1'', folder = ''INBOX'',
      email_from = ''hr@corp.example'', email_to = [''me@mail.example''],
      subject = ''Quick question'', body = ''When are you free this week?'',
      date = 0, uid = 5, category = None, html = None\<rparr>"

definition rulesOnlyService :: RAGService where
  "rulesOnlyService =
     initializeVectorDB ''I am applying for a job position.''
       \<lparr>openai = None, contextDocs = []\<rparr>"

definition failingService :: RAGService where
  "failingService =
     initializeVectorDB ''I am applying for a job position.''
       \<lparr>openai = Some (\<lambda>prompt. Throws), contextDocs = []\<rparr>"

definition colourService :: RAGService where
  "colourService =
     \<lparr>openai = None,
      contextDocs =
        [\<lparr>doc_id = ''d1'', doc_text = ''green'', embedding = None\<rparr>,
         \<lparr>doc_id = ''d2'', doc_text = ''red blue'', embedding = None\<rparr>,
         \<lparr>doc_id = ''d3'', doc_text = ''red green blue'', embedding = None\<rparr>,
         \<lparr>doc_id = ''d4'', doc_text = ''blue red'', embedding = None\<rparr>]\<rparr>"

definition colourServiceRenamed :: RAGService where
  "colourServiceRenamed =
     \<lparr>openai = Some (\<lambda>prompt. Throws),
      contextDocs =
        [\<lparr>doc_id = ''a'', doc_text = ''green'', embedding = None\<rparr>,
         \<lparr>doc_id = ''b'', doc_text = ''red blue'', embedding = None\<rparr>,
         \<lparr>doc_id = ''c'', doc_text = ''red green blue'', embedding = None\<rparr>,
         \<lparr>doc_id = ''d'', doc_text = ''blue red'', embedding = None\<rparr>]\<rparr>"

section \<open>Collaborators and the pipeline coordinator\<close>

text \<open>
  The world outside the process as far as the coordinator and the controller touch it:
  the documents of the Elasticsearch index by id, and the requests sent to the
  collaborators, oldest first. Console output is left out.
\<close>

datatype effect =
    IndexRequest Email
  | UpdateRequest string string
  | SlackNotification Email
  | WebhookNotification Email
  | HttpPost string

record World =
  store :: "string \<Rightarrow> Email option"
  trace :: "effect list"

text \<open>
  What the process does not decide: the two URLs of \<^verbatim>\<open>config\<close> (read from the
  environment, "" when unset), and which requests to Elasticsearch and which HTTP posts
  succeed.
\<close>

record Env =
  slackWebhookUrl :: string
  webhookUrl :: string
  indexSucceeds :: "Email \<Rightarrow> bool"
  updateSucceeds :: "string \<Rightarrow> bool"
  postSucceeds :: "string \<Rightarrow> bool"

subsection \<open>services/elasticsearch.service.ts\<close>

text \<open>
  An asynchronous method either throws or returns, and leaves a world behind in both
  cases. \<^verbatim>\<open>indexEmail\<close> and \<^verbatim>\<open>updateEmailCategory\<close> log and rethrow what the client
  throws.
\<close>

definition indexEmail :: "Env \<Rightarrow> Email \<Rightarrow> World \<Rightarrow> js_error option \<times> World" where
  "indexEmail env email w =
     (let w1 = w\<lparr>trace := trace w @ [IndexRequest email]\<rparr>
      in if indexSucceeds env email
         then (None, w1\<lparr>store := (store w1)(email_id email \<mapsto> email)\<rparr>)
         else (Some ElasticsearchError, w1))"





subsection \<open>services/notification.service.ts\<close>

text \<open>
  Both senders return without a request when their URL is not configured, and catch
  whatever the post throws. \<^verbatim>\<open>Promise.all\<close> starts the Slack notification, then the
  webhook, and waits for both.
\<close>

definition axios_post :: "Env \<Rightarrow> string \<Rightarrow> World \<Rightarrow> js_error option \<times> World" where
  "axios_post env url w =
     (let w1 = w\<lparr>trace := trace w @ [HttpPost url]\<rparr>
      in if postSucceeds env url then (None, w1) else (Some HttpError, w1))"

definition sendSlackNotification :: "Env \<Rightarrow> Email \<Rightarrow> World \<Rightarrow> World" where
  "sendSlackNotification env email w =
     (let w1 = w\<lparr>trace := trace w @ [SlackNotification email]\<rparr>
      in if slackWebhookUrl env = [] then w1
         else case axios_post env (slackWebhookUrl env) w1 of
                (None, w2) \<Rightarrow> w2
              | (Some error, w2) \<Rightarrow> w2)"

definition triggerWebhook :: "Env \<Rightarrow> Email \<Rightarrow> World \<Rightarrow> World" where
  "triggerWebhook env email w =
     (let w1 = w\<lparr>trace := trace w @ [WebhookNotification email]\<rparr>
      in if webhookUrl env = [] then w1
         else case axios_post env (webhookUrl env) w1 of
                (None, w2) \<Rightarrow> w2
              | (Some error, w2) \<Rightarrow> w2)"

definition notifyInterestedEmail :: "Env \<Rightarrow> Email \<Rightarrow> World \<Rightarrow> World" where
  "notifyInterestedEmail env email w =
     (if category email = Some INTERESTED
      then triggerWebhook env email (sendSlackNotification env email w)
      else w)"

subsection \<open>server.ts\<close>

text \<open>
  \<^verbatim>\<open>handleNewEmail\<close>: everything is inside one \<^verbatim>\<open>try\<close>; an error of the index request
  skips the notification and is logged.
\<close>

definition handleNewEmail :: "Env \<Rightarrow> Email \<Rightarrow> World \<Rightarrow> World" where
  "handleNewEmail env email0 w =
     (let c = categorizeEmail email0;
          email = email0\<lparr>category := Some c\<rparr>
      in case indexEmail env email w of
           (Some error, w1) \<Rightarrow> w1
         | (None, w1) \<Rightarrow> notifyInterestedEmail env email w1)"

subsection \<open>controllers/email.controller.ts\<close>

text \<open>
  A JSON value. \<^verbatim>\<open>req.body\<close> is what the body parsers of the server leave: an
  object with the properties of the parsed body, or nothing (undefined) when no body
  was parsed and the parser does not supply an empty object. A property that the object
  does not have reads as undefined (\<open>None\<close>). \<^verbatim>\<open>req.params.id\<close> and \<^verbatim>\<open>req.body\<close>
  are the fields \<open>params_id\<close> and \<open>req_body\<close>.
\<close>

datatype json =
    JNull
  | JBool bool
  | JNumber rat
  | JString string
  | JArray "json list"
  | JObject "(string \<times> json) list"






text \<open>Examples for the coordinator and the controller.\<close>

definition emptyWorld :: World where
  "emptyWorld = \<lparr>store = (\<lambda>i. None), trace = []\<rparr>"

definition downEnv :: Env where
  "downEnv =
     \<lparr>slackWebhookUrl = ''https://hooks.example/slack'',
      webhookUrl = ''https://hooks.example/in'',
      indexSucceeds = (\<lambda>email. False),
      updateSucceeds = (\<lambda>i. True),
      postSucceeds = (\<lambda>url. True)\<rparr>"

definition flakyHooksEnv :: Env where
  "flakyHooksEnv =
     \<lparr>slackWebhookUrl = ''https://hooks.example/slack'',
      webhookUrl = ''https://hooks.example/in'',
      indexSucceeds = (\<lambda>email. True),
      updateSucceeds = (\<lambda>i. True),
      postSucceeds = (\<lambda>url. False)\<rparr>"




section \<open>Mailbox connector (services/imap.service.ts)\<close>










text \<open>
  What can happen to a connector: its owner calls \<^verbatim>\<open>connect()\<close> or \<^verbatim>\<open>disconnect()\<close>;
  the client emits \<^verbatim>\<open>ready\<close> when the connection it was opening is authenticated,
  \<^verbatim>\<open>error\<close> on a connection that is not closed, \<^verbatim>\<open>end\<close> when a connection that is not
  closed has ended (after \<^verbatim>\<open>imap.end()\<close>, or when the server or the network ends it);
  a pending timer fires and calls \<^verbatim>\<open>connect()\<close>; on an authenticated connection, also
  one that \<^verbatim>\<open>imap.end()\<close> is closing, the client delivers the body of a fetched message,
  which goes to the parser; the parser calls back, with the message or with an error.
  \<open>step\<close> is \<open>None\<close> for an event that cannot happen in the state, and for an
  \<^verbatim>\<open>error\<close> event when the error listener has run before: the emitter throws an
  \<^verbatim>\<open>error\<close> event that has no listener, nothing catches it, and the process ends.
\<close>

datatype event =
    CallConnect
  | CallDisconnect
  | Ready
  | Error
  | End
  | TimerFires
  | Body
  | Parsed
  | ParseFailed









section \<open>Facts about strings\<close>

lemma some_iff: "some xs f \<longleftrightarrow> (\<exists>x \<in> set xs. f x)"
  by (induction xs) auto

lemma startsWith_iff: "startsWith t p \<longleftrightarrow> (\<exists>suf. t = p @ suf)"
  by (induction t p rule: startsWith.induct) auto

lemma str_includes_iff: "str_includes t p \<longleftrightarrow> (\<exists>pre suf. t = pre @ p @ suf)"
proof (induction t)
  case Nil
  then show ?case by auto
next
  case (Cons c cs)
  show ?case
  proof
    assume "str_includes (c # cs) p"
    then consider "startsWith (c # cs) p" | "str_includes cs p" by auto
    then show "\<exists>pre suf. c # cs = pre @ p @ suf"
    proof cases
      case 1
      then obtain suf where "c # cs = p @ suf" by (auto simp: startsWith_iff)
      then have "c # cs = [] @ p @ suf" by simp
      then show ?thesis by blast
    next
      case 2
      with Cons.IH obtain pre suf where "cs = pre @ p @ suf" by blast
      then have "c # cs = (c # pre) @ p @ suf" by simp
      then show ?thesis by blast
    qed
  next
    assume "\<exists>pre suf. c # cs = pre @ p @ suf"
    then obtain pre suf where eq: "c # cs = pre @ p @ suf" by blast
    show "str_includes (c # cs) p"
    proof (cases pre)
      case Nil
      with eq have "startsWith (c # cs) p" by (auto simp: startsWith_iff)
      then show ?thesis by simp
    next
      case (Cons d ds)
      with eq have "cs = ds @ p @ suf" by simp
      with Cons.IH have "str_includes cs p" by blast
      then show ?thesis by simp
    qed
  qed
qed

lemma toLowerCase_append: "toLowerCase (s @ t) = toLowerCase s @ toLowerCase t"
  by (simp add: toLowerCase_def)

lemma length_toLowerCase: "length (toLowerCase s) = length s"
  by (simp add: toLowerCase_def)

section \<open>Facts about the categorizer\<close>

lemma isOutOfOffice_iff: "isOutOfOffice t \<longleftrightarrow> spec_matches outOfOfficePatterns t"
  by (simp add: isOutOfOffice_def spec_matches_def some_iff)

lemma hasSpamPattern_iff: "hasSpamPattern t \<longleftrightarrow> spec_matches spamPatterns t"
  by (simp add: hasSpamPattern_def spec_matches_def some_iff)






text \<open>The lower-cased text of the interview message, and what each rule says about it.\<close>

lemma interview_text:
  "toLowerCase (''Interview scheduled - Backend Engineer'' @ '' '' @
      ''Let's discuss next steps, are you available for a call?'') =
   ''interview scheduled - backend engineer let's discuss next steps, are you available for a call?''"
  by code_simp

lemma interview_not_ooo:
  "\<not> isOutOfOffice
     ''interview scheduled - backend engineer let's discuss next steps, are you available for a call?''"
  by code_simp

lemma interview_no_spam_pattern:
  "\<not> hasSpamPattern
     ''interview scheduled - backend engineer let's discuss next steps, are you available for a call?''"
  by code_simp

lemma interview_caps:
  "\<not> js_gt (js_div (length (filter isUpperAZ ''Interview scheduled - Backend Engineer''))
       (length ''Interview scheduled - Backend Engineer'')) (1 / 2)"
  by code_simp

lemma interview_not_meeting:
  "\<not> isMeetingBooked
     ''interview scheduled - backend engineer let's discuss next steps, are you available for a call?''"
  by code_simp

lemma interview_interested:
  "isInterested
     ''interview scheduled - backend engineer let's discuss next steps, are you available for a call?''"
  by code_simp

text \<open>
  C2 (as amended). The message with subject "Interview scheduled - Backend Engineer" and
  body "Let's discuss next steps, are you available for a call?" is categorized
  Interested, whatever its other fields: no MeetingBooked phrase occurs in its text (the
  list has "meeting scheduled", "scheduled a meeting" and "scheduled for", not
  "scheduled"), and the Interested phrase "interview" does.
\<close>

theorem categorizeEmail_interview_interested:
  "subject e = ''Interview scheduled - Backend Engineer''
   \<Longrightarrow> body e = ''Let's discuss next steps, are you available for a call?''
   \<Longrightarrow> categorizeEmail e = INTERESTED"
  using interview_text interview_not_ooo interview_no_spam_pattern interview_caps
    interview_not_meeting interview_interested
  by (simp add: categorizeEmail_def lowerCasedText_def isSpam_def excessiveCaps_def
      capsPercentage_def)

theorem categorizeEmail_interview_interested_witness:
  "subject interviewEmail = ''Interview scheduled - Backend Engineer''
   \<and> body interviewEmail = ''Let's discuss next steps, are you available for a call?''
   \<and> categorizeEmail interviewEmail = INTERESTED"
proof -
  have s: "subject interviewEmail = ''Interview scheduled - Backend Engineer''"
    by (simp add: interviewEmail_def)
  have b: "body interviewEmail = ''Let's discuss next steps, are you available for a call?''"
    by (simp add: interviewEmail_def)
  from categorizeEmail_interview_interested [OF s b] s b show ?thesis by simp
qed

text \<open>C2 as stated fails: the category of that message is not MeetingBooked.\<close>

theorem categorizeEmail_interview_counterexample:
  "categorizeEmail interviewEmail \<noteq> MEETING_BOOKED"
  by code_simp

text \<open>
  The capitalization test on exact ratios: the number of capitals never exceeds the
  length, so the quotient is NaN for the empty subject and a ratio otherwise.
\<close>

lemma js_gt_js_div:
  "a \<le> b \<Longrightarrow> js_gt (js_div a b) (1 / 2) \<longleftrightarrow> (of_nat a / of_nat b > (1 / 2 :: rat))"
  by (cases "b = 0") (simp_all add: js_div_def)

lemma excessiveCaps_iff:
  "excessiveCaps e \<longleftrightarrow>
     (of_nat (length (filter isUpperAZ (subject e))) / of_nat (length (subject e)) > (1 / 2 :: rat)
      \<and> length (subject e) > 10)"
  by (simp add: excessiveCaps_def capsPercentage_def js_gt_js_div)

text \<open>The subject "WINNING OFFER!!": 12 capitals among 15 code units.\<close>

lemma winning_lower: "toLowerCase (''WINNING OFFER!!'' @ '' '') = ''winning offer!! ''"
  by code_simp

lemma winning_caps:
  "js_gt (js_div (length (filter isUpperAZ ''WINNING OFFER!!'')) (length ''WINNING OFFER!!''))
     (1 / 2)"
  by code_simp

lemma winning_from: "str_includes ''noreply@bulk.example'' ''noreply''"
  by code_simp

text \<open>
  No phrase of the first two rules starts inside "winning offer!! " and ends in the
  body: on the text of such a message both rules see the body only.
\<close>

lemma winning_ooo: "isOutOfOffice (''winning offer!! '' @ b) = isOutOfOffice b"
  by (simp add: isOutOfOffice_def outOfOfficePatterns_def)

lemma winning_spam_pattern: "hasSpamPattern (''winning offer!! '' @ b) = hasSpamPattern b"
  by (simp add: hasSpamPattern_def spamPatterns_def)

lemma winning_text:
  "subject e = ''WINNING OFFER!!'' \<Longrightarrow> lowerCasedText e = ''winning offer!! '' @ toLowerCase (body e)"
proof -
  assume s: "subject e = ''WINNING OFFER!!''"
  have "lowerCasedText e = toLowerCase ((''WINNING OFFER!!'' @ '' '') @ body e)"
    by (simp add: lowerCasedText_def s)
  also have "\<dots> = toLowerCase (''WINNING OFFER!!'' @ '' '') @ toLowerCase (body e)"
    by (rule toLowerCase_append)
  finally show ?thesis by (simp only: winning_lower)
qed

text \<open>
  C5 (as amended). The Spam rule holds iff a spam phrase occurs in the lower-cased text
  of subject and body, or the share of the letters A..Z (the matches of \<^verbatim>\<open>[A-Z]\<close>,
  no other uppercase letter) in the subject exceeds one half, the subject is longer
  than 10 and the sender contains "noreply" or "no-reply" or has no "@". A
  message with subject "WINNING OFFER!!" from noreply@bulk.example whose body has no
  OutOfOffice phrase is Spam, also when no spam phrase occurs in its text (which is so
  whenever none occurs in the body).
\<close>

theorem isSpam_rule:
  "(isSpam (lowerCasedText e) e \<longleftrightarrow>
      spec_matches spamPatterns (lowerCasedText e)
      \<or> (of_nat (length (filter isUpperAZ (subject e))) / of_nat (length (subject e))
            > (1 / 2 :: rat)
         \<and> length (subject e) > 10
         \<and> (str_includes (email_from e) ''noreply''
            \<or> str_includes (email_from e) ''no-reply''
            \<or> \<not> str_includes (email_from e) ''@'')))
   \<and> (subject e = ''WINNING OFFER!!'' \<and> email_from e = ''noreply@bulk.example''
        \<and> \<not> spec_matches outOfOfficePatterns (toLowerCase (body e))
      \<longrightarrow> categorizeEmail e = SPAM
          \<and> (\<not> spec_matches spamPatterns (toLowerCase (body e))
               \<longrightarrow> \<not> spec_matches spamPatterns (lowerCasedText e)))"
proof (intro conjI impI)
  show "isSpam (lowerCasedText e) e \<longleftrightarrow>
      spec_matches spamPatterns (lowerCasedText e)
      \<or> (of_nat (length (filter isUpperAZ (subject e))) / of_nat (length (subject e))
            > (1 / 2 :: rat)
         \<and> length (subject e) > 10
         \<and> (str_includes (email_from e) ''noreply''
            \<or> str_includes (email_from e) ''no-reply''
            \<or> \<not> str_includes (email_from e) ''@''))"
    by (simp add: isSpam_def hasSpamPattern_iff excessiveCaps_iff suspiciousFrom_def)
next
  assume h: "subject e = ''WINNING OFFER!!'' \<and> email_from e = ''noreply@bulk.example''
        \<and> \<not> spec_matches outOfOfficePatterns (toLowerCase (body e))"
  then have t: "lowerCasedText e = ''winning offer!! '' @ toLowerCase (body e)"
    by (simp add: winning_text)
  from h have "\<not> isOutOfOffice (toLowerCase (body e))"
    by (simp add: isOutOfOffice_iff)
  then have ooo: "\<not> isOutOfOffice (lowerCasedText e)"
    unfolding t winning_ooo .
  from h have caps: "excessiveCaps e"
    using winning_caps by (simp add: excessiveCaps_def capsPercentage_def)
  from h have sus: "suspiciousFrom e"
    using winning_from by (simp add: suspiciousFrom_def)
  from ooo caps sus show "categorizeEmail e = SPAM"
    by (simp add: categorizeEmail_def isSpam_def)
  show "\<not> spec_matches spamPatterns (lowerCasedText e)"
    if "\<not> spec_matches spamPatterns (toLowerCase (body e))"
  proof -
    from that have "\<not> hasSpamPattern (toLowerCase (body e))"
      by (simp add: hasSpamPattern_iff)
    then have "\<not> hasSpamPattern (lowerCasedText e)"
      unfolding t winning_spam_pattern .
    then show ?thesis by (simp add: hasSpamPattern_iff)
  qed
qed

theorem isSpam_rule_witness:
  "subject winningOfferEmail = ''WINNING OFFER!!''
   \<and> email_from winningOfferEmail = ''noreply@bulk.example''
   \<and> \<not> spec_matches outOfOfficePatterns (toLowerCase (body winningOfferEmail))
   \<and> \<not> spec_matches spamPatterns (toLowerCase (body winningOfferEmail))
   \<and> categorizeEmail winningOfferEmail = SPAM
   \<and> \<not> spec_matches spamPatterns (lowerCasedText winningOfferEmail)"
proof -
  have s: "subject winningOfferEmail = ''WINNING OFFER!!''"
    by (simp add: winningOfferEmail_def)
  have f: "email_from winningOfferEmail = ''noreply@bulk.example''"
    by (simp add: winningOfferEmail_def)
  have "\<not> isOutOfOffice (toLowerCase (body winningOfferEmail))"
    by code_simp
  then have o: "\<not> spec_matches outOfOfficePatterns (toLowerCase (body winningOfferEmail))"
    by (simp add: isOutOfOffice_iff)
  have "\<not> hasSpamPattern (toLowerCase (body winningOfferEmail))"
    by code_simp
  then have p: "\<not> spec_matches spamPatterns (toLowerCase (body winningOfferEmail))"
    by (simp add: hasSpamPattern_iff)
  from isSpam_rule [of winningOfferEmail] s f o p
  have "categorizeEmail winningOfferEmail = SPAM
        \<and> \<not> spec_matches spamPatterns (lowerCasedText winningOfferEmail)"
    by blast
  with s f o p show ?thesis by blast
qed

text \<open>
  C5 as stated fails for uppercase letters outside A..Z. The subject of eleven accented
  capitals U+00C0 is all uppercase letters and longer than 10, the sender contains
  "noreply", and no phrase of an earlier rule occurs; the code counts no capital, the
  Spam rule does not hold and the message is Uncategorized.
\<close>

theorem isSpam_uppercase_counterexample:
  "of_nat (length (filter spec_isUppercase (subject accentCapsEmail))) /
     of_nat (length (subject accentCapsEmail)) > (1 / 2 :: rat)
   \<and> length (subject accentCapsEmail) > 10
   \<and> str_includes (email_from accentCapsEmail) ''noreply''
   \<and> \<not> isOutOfOffice (lowerCasedText accentCapsEmail)
   \<and> length (filter isUpperAZ (subject accentCapsEmail)) = 0
   \<and> \<not> isSpam (lowerCasedText accentCapsEmail) accentCapsEmail
   \<and> categorizeEmail accentCapsEmail = UNCATEGORIZED"
proof -
  have r: "of_nat (length (filter spec_isUppercase (subject accentCapsEmail))) /
     of_nat (length (subject accentCapsEmail)) > (1 / 2 :: rat)"
    by code_simp
  have l: "length (subject accentCapsEmail) > 10" by code_simp
  have f: "str_includes (email_from accentCapsEmail) ''noreply''" by code_simp
  have o: "\<not> isOutOfOffice (lowerCasedText accentCapsEmail)" by code_simp
  have z: "length (filter isUpperAZ (subject accentCapsEmail)) = 0" by code_simp
  have s: "\<not> isSpam (lowerCasedText accentCapsEmail) accentCapsEmail" by code_simp
  have c: "categorizeEmail accentCapsEmail = UNCATEGORIZED" by code_simp
  from r l f o z s c show ?thesis by blast
qed

text \<open>
  C10. For a message with the empty subject the capitalization ratio is NaN (0 / 0), its
  comparison with 0.5 is false and the compound heuristic does not fire: the Spam rule
  holds iff a spam phrase occurs in the text, and categorizeEmail answers Spam iff no
  OutOfOffice phrase and some spam phrase occurs.
\<close>

theorem empty_subject_spam:
  "subject e = [] \<Longrightarrow>
     capsPercentage e = NaN
     \<and> \<not> excessiveCaps e
     \<and> (isSpam (lowerCasedText e) e \<longleftrightarrow> spec_matches spamPatterns (lowerCasedText e))
     \<and> (categorizeEmail e = SPAM \<longleftrightarrow>
          \<not> spec_matches outOfOfficePatterns (lowerCasedText e)
          \<and> spec_matches spamPatterns (lowerCasedText e))"
  by (simp add: capsPercentage_def js_div_def excessiveCaps_def isSpam_def
      categorizeEmail_def Let_def hasSpamPattern_iff isOutOfOffice_iff)

theorem empty_subject_spam_witness:
  "subject emptySubjectEmail = []
   \<and> suspiciousFrom emptySubjectEmail
   \<and> capsPercentage emptySubjectEmail = NaN
   \<and> \<not> isSpam (lowerCasedText emptySubjectEmail) emptySubjectEmail
   \<and> categorizeEmail emptySubjectEmail \<noteq> SPAM"
proof -
  have s: "subject emptySubjectEmail = []"
    by (simp add: emptySubjectEmail_def)
  have f: "suspiciousFrom emptySubjectEmail"
    by code_simp
  have "\<not> hasSpamPattern (lowerCasedText emptySubjectEmail)"
    by code_simp
  then have p: "\<not> spec_matches spamPatterns (lowerCasedText emptySubjectEmail)"
    by (simp add: hasSpamPattern_iff)
  from empty_subject_spam [OF s] p s f show ?thesis by blast
qed

section \<open>Facts about the reply retrieval engine\<close>

lemma arr_includes_iff: "arr_includes xs x \<longleftrightarrow> x \<in> set xs"
  by (simp add: arr_includes_def)

lemma splitWs_not_Nil: "splitWs s \<noteq> []"
  by (subst splitWs.simps) (simp split: list.split)

lemma length_splitWs_pos: "0 < length (splitWs s)"
  using splitWs_not_Nil [of s] by simp

lemma count_list_filter:
  "count_list (filter P xs) w = (if P w then count_list xs w else 0)"
  by (induction xs) auto

lemma length_filter_common:
  "length (filter (\<lambda>w. w \<in> set ys) xs) = (\<Sum>w \<in> set xs \<inter> set ys. count_list xs w)"
proof -
  let ?fs = "filter (\<lambda>w. w \<in> set ys) xs"
  have s: "set ?fs = set xs \<inter> set ys" by auto
  have "length ?fs = sum (count_list ?fs) (set ?fs)"
    by (simp add: sum_count_set)
  also have "\<dots> = sum (count_list ?fs) (set xs \<inter> set ys)"
    by (simp only: s)
  also have "\<dots> = sum (count_list xs) (set xs \<inter> set ys)"
    by (rule sum.cong) (simp_all add: count_list_filter)
  finally show ?thesis .
qed

lemma length_filter_common_distinct:
  assumes "distinct xs"
  shows "length (filter (\<lambda>w. w \<in> set ys) xs) = card (set xs \<inter> set ys)"
proof -
  let ?fs = "filter (\<lambda>w. w \<in> set ys) xs"
  have "distinct ?fs" using assms by simp
  then have "card (set ?fs) = length ?fs" by (rule distinct_card)
  moreover have "set ?fs = set xs \<inter> set ys" by auto
  ultimately show ?thesis by simp
qed

text \<open>
  C3 (as amended). The score of texts a and b is the number of pieces of a that occur
  among the pieces of b, every common word counted as often as it occurs in a, over the
  larger of the two numbers of pieces (repetitions included); the pieces are those of
  the lower-cased text between runs of white space, and the divisor is positive. When
  no piece is repeated in a and none in b, the score is the size of the intersection of
  the token sets over the larger of their sizes.
\<close>

theorem calculateSimilarity_counts:
  "calculateSimilarity a b =
     of_nat (\<Sum>w \<in> spec_tokens a \<inter> spec_tokens b. count_list (splitWs (toLowerCase a)) w) /
     of_nat (max (length (splitWs (toLowerCase a))) (length (splitWs (toLowerCase b))))
   \<and> 0 < max (length (splitWs (toLowerCase a))) (length (splitWs (toLowerCase b)))
   \<and> (distinct (splitWs (toLowerCase a)) \<and> distinct (splitWs (toLowerCase b))
        \<longrightarrow> calculateSimilarity a b = spec_similarity a b)"
proof (intro conjI impI)
  show "calculateSimilarity a b =
     of_nat (\<Sum>w \<in> spec_tokens a \<inter> spec_tokens b. count_list (splitWs (toLowerCase a)) w) /
     of_nat (max (length (splitWs (toLowerCase a))) (length (splitWs (toLowerCase b))))"
    by (simp add: calculateSimilarity_def Let_def arr_includes_iff length_filter_common
        spec_tokens_def)
next
  show "0 < max (length (splitWs (toLowerCase a))) (length (splitWs (toLowerCase b)))"
    using length_splitWs_pos [of "toLowerCase a"] by (simp add: less_max_iff_disj)
next
  assume d: "distinct (splitWs (toLowerCase a)) \<and> distinct (splitWs (toLowerCase b))"
  then have "card (spec_tokens a) = length (splitWs (toLowerCase a))"
    and "card (spec_tokens b) = length (splitWs (toLowerCase b))"
    by (simp_all add: spec_tokens_def distinct_card)
  with d show "calculateSimilarity a b = spec_similarity a b"
    by (simp add: calculateSimilarity_def Let_def arr_includes_iff spec_similarity_def
        length_filter_common_distinct spec_tokens_def)
qed

theorem calculateSimilarity_counts_witness:
  "distinct (splitWs (toLowerCase ''Hello world''))
   \<and> distinct (splitWs (toLowerCase ''world peace now''))
   \<and> calculateSimilarity ''Hello world'' ''world peace now'' = 1 / 3
   \<and> spec_similarity ''Hello world'' ''world peace now'' = 1 / 3"
proof -
  have d1: "distinct (splitWs (toLowerCase ''Hello world''))" by code_simp
  have d2: "distinct (splitWs (toLowerCase ''world peace now''))" by code_simp
  have v: "calculateSimilarity ''Hello world'' ''world peace now'' = 1 / 3" by code_simp
  from calculateSimilarity_counts [of "''Hello world''" "''world peace now''"] d1 d2
  have "calculateSimilarity ''Hello world'' ''world peace now'' =
        spec_similarity ''Hello world'' ''world peace now''"
    by blast
  with d1 d2 v show ?thesis by simp
qed

text \<open>
  C3 as stated fails: with a repeated word the score is not the ratio of the set sizes.
  The pieces of "go go" are go, go, both among the pieces go, stop of "go stop": the
  score is 2 / 2, while the token sets {go} and {go, stop} give 1 / 2.
\<close>

theorem calculateSimilarity_counterexample:
  "calculateSimilarity ''go go'' ''go stop'' = 1
   \<and> spec_similarity ''go go'' ''go stop'' = 1 / 2
   \<and> calculateSimilarity ''go go'' ''go stop'' \<noteq> spec_similarity ''go go'' ''go stop''"
proof -
  have c: "calculateSimilarity ''go go'' ''go stop'' = 1" by code_simp
  have s: "spec_similarity ''go go'' ''go stop'' = 1 / 2" by code_simp
  from c s show ?thesis by simp
qed

text \<open>
  The sort with the comparison function \<open>\<lambda>a b. k b - k a\<close>: a permutation, in
  non-increasing order of the key \<open>k\<close>, that keeps the order of elements with one key.
\<close>

lemma mset_sort_insert: "mset (sort_insert cmp x ys) = add_mset x (mset ys)"
  by (induction ys) auto

lemma mset_js_sort: "mset (js_sort cmp xs) = mset xs"
  by (induction xs) (auto simp: mset_sort_insert)

lemma set_sort_insert: "set (sort_insert cmp x ys) = insert x (set ys)"
  by (induction ys) auto

lemma length_js_sort: "length (js_sort cmp xs) = length xs"
  using mset_js_sort [of cmp xs] by (metis size_mset)

lemma sorted_sort_insert:
  fixes k :: "'a \<Rightarrow> rat"
  shows "sorted_wrt (\<lambda>a b. k a \<ge> k b) ys
    \<Longrightarrow> sorted_wrt (\<lambda>a b. k a \<ge> k b) (sort_insert (\<lambda>a b. k b - k a) x ys)"
proof (induction ys)
  case Nil
  then show ?case by simp
next
  case (Cons y ys)
  show ?case
  proof (cases "k y - k x \<le> 0")
    case True
    with Cons.prems show ?thesis by fastforce
  next
    case False
    with Cons show ?thesis by (auto simp: set_sort_insert)
  qed
qed

lemma sorted_js_sort:
  fixes k :: "'a \<Rightarrow> rat"
  shows "sorted_wrt (\<lambda>a b. k a \<ge> k b) (js_sort (\<lambda>a b. k b - k a) xs)"
  by (induction xs) (auto intro: sorted_sort_insert)

lemma filter_sort_insert:
  fixes k :: "'a \<Rightarrow> rat"
  shows "filter (\<lambda>a. k a = s) (sort_insert (\<lambda>a b. k b - k a) x ys) =
         filter (\<lambda>a. k a = s) (x # ys)"
  by (induction ys) auto

lemma stable_js_sort:
  fixes k :: "'a \<Rightarrow> rat"
  shows "filter (\<lambda>a. k a = s) (js_sort (\<lambda>a b. k b - k a) xs) = filter (\<lambda>a. k a = s) xs"
  by (induction xs) (auto simp: filter_sort_insert)

text \<open>Sorting commutes with a projection that respects the keys.\<close>

lemma sort_insert_map:
  fixes k1 :: "'a \<Rightarrow> rat" and k2 :: "'b \<Rightarrow> rat"
  assumes "\<forall>z \<in> set (x # ys). k1 z = k2 (p z)"
  shows "map p (sort_insert (\<lambda>a b. k1 b - k1 a) x ys) =
         sort_insert (\<lambda>a b. k2 b - k2 a) (p x) (map p ys)"
  using assms by (induction ys) auto

lemma js_sort_map:
  fixes k1 :: "'a \<Rightarrow> rat" and k2 :: "'b \<Rightarrow> rat"
  assumes "\<forall>z \<in> set xs. k1 z = k2 (p z)"
  shows "map p (js_sort (\<lambda>a b. k1 b - k1 a) xs) = js_sort (\<lambda>a b. k2 b - k2 a) (map p xs)"
  using assms
proof (induction xs)
  case Nil
  then show ?case by simp
next
  case (Cons x xs)
  have "\<forall>z \<in> set (x # js_sort (\<lambda>a b. k1 b - k1 a) xs). k1 z = k2 (p z)"
    using Cons.prems mset_js_sort [of "\<lambda>a b. k1 b - k1 a" xs]
    by (metis set_ConsD list.set_intros(1,2) set_mset_mset)
  then have "map p (sort_insert (\<lambda>a b. k1 b - k1 a) x (js_sort (\<lambda>a b. k1 b - k1 a) xs)) =
      sort_insert (\<lambda>a b. k2 b - k2 a) (p x) (map p (js_sort (\<lambda>a b. k1 b - k1 a) xs))"
    by (rule sort_insert_map)
  with Cons show ?case by simp
qed

text \<open>The selection in terms of the snippet texts alone.\<close>

lemma retrieveRelevantContext_texts:
  "retrieveRelevantContext rag t =
     take 3 (js_sort (\<lambda>a b. calculateSimilarity t b - calculateSimilarity t a)
       (map doc_text (contextDocs rag)))"
proof -
  let ?p = "\<lambda>item. doc_text (doc item)"
  have "map ?p (js_sort (\<lambda>a b. score b - score a) (scoredDocs rag t)) =
        js_sort (\<lambda>a b. calculateSimilarity t b - calculateSimilarity t a)
          (map ?p (scoredDocs rag t))"
    by (rule js_sort_map) (auto simp: scoredDocs_def)
  moreover have "map ?p (scoredDocs rag t) = map doc_text (contextDocs rag)"
    by (simp add: scoredDocs_def)
  ultimately show ?thesis
    by (simp add: retrieveRelevantContext_def Let_def flip: take_map)
qed

text \<open>
  C9. The selection is a function of the message text and the snippet texts: services
  with the same snippet texts in the same order return the same list for a text. The
  list is the first three entries (all, when there are fewer) of a ranking of the
  snippets that is a permutation of them, in non-increasing order of score, with the
  snippets of one score in their insertion order.
\<close>

theorem retrieveRelevantContext_stable_top3:
  "(\<exists>ranked.
       mset ranked = mset (map doc_text (contextDocs rag))
       \<and> sorted_wrt (\<lambda>x y. calculateSimilarity t x \<ge> calculateSimilarity t y) ranked
       \<and> (\<forall>s. filter (\<lambda>x. calculateSimilarity t x = s) ranked =
                filter (\<lambda>x. calculateSimilarity t x = s) (map doc_text (contextDocs rag)))
       \<and> retrieveRelevantContext rag t = take 3 ranked)
   \<and> length (retrieveRelevantContext rag t) = min 3 (length (contextDocs rag))
   \<and> (\<forall>rag'. map doc_text (contextDocs rag') = map doc_text (contextDocs rag)
         \<longrightarrow> retrieveRelevantContext rag' t = retrieveRelevantContext rag t)"
proof (intro conjI allI impI)
  let ?cmp = "\<lambda>a b. calculateSimilarity t b - calculateSimilarity t a"
  let ?texts = "map doc_text (contextDocs rag)"
  have "mset (js_sort ?cmp ?texts) = mset ?texts"
    by (rule mset_js_sort)
  moreover have "sorted_wrt (\<lambda>x y. calculateSimilarity t x \<ge> calculateSimilarity t y)
      (js_sort ?cmp ?texts)"
    by (rule sorted_js_sort)
  moreover have "\<forall>s. filter (\<lambda>x. calculateSimilarity t x = s) (js_sort ?cmp ?texts) =
      filter (\<lambda>x. calculateSimilarity t x = s) ?texts"
    by (simp add: stable_js_sort)
  moreover have "retrieveRelevantContext rag t = take 3 (js_sort ?cmp ?texts)"
    by (rule retrieveRelevantContext_texts)
  ultimately show "\<exists>ranked.
       mset ranked = mset ?texts
       \<and> sorted_wrt (\<lambda>x y. calculateSimilarity t x \<ge> calculateSimilarity t y) ranked
       \<and> (\<forall>s. filter (\<lambda>x. calculateSimilarity t x = s) ranked =
                filter (\<lambda>x. calculateSimilarity t x = s) ?texts)
       \<and> retrieveRelevantContext rag t = take 3 ranked"
    by blast
next
  show "length (retrieveRelevantContext rag t) = min 3 (length (contextDocs rag))"
    by (simp add: retrieveRelevantContext_texts length_js_sort)
next
  fix rag' :: RAGService
  assume "map doc_text (contextDocs rag') = map doc_text (contextDocs rag)"
  then show "retrieveRelevantContext rag' t = retrieveRelevantContext rag t"
    by (simp add: retrieveRelevantContext_texts)
qed

theorem retrieveRelevantContext_stable_top3_witness:
  "map doc_text (contextDocs colourServiceRenamed) = map doc_text (contextDocs colourService)
   \<and> retrieveRelevantContext colourService ''Red Blue'' =
       [''red blue'', ''blue red'', ''red green blue'']
   \<and> retrieveRelevantContext colourServiceRenamed ''Red Blue'' =
       [''red blue'', ''blue red'', ''red green blue'']
   \<and> map (calculateSimilarity ''Red Blue'') [''green'', ''red blue'', ''red green blue'', ''blue red'']
       = [0, 1, 2 / 3, 1]"
proof -
  have e: "map doc_text (contextDocs colourServiceRenamed) =
           map doc_text (contextDocs colourService)"
    by (simp add: colourServiceRenamed_def colourService_def)
  have v: "retrieveRelevantContext colourService ''Red Blue'' =
       [''red blue'', ''blue red'', ''red green blue'']"
    by code_simp
  have sc: "map (calculateSimilarity ''Red Blue'')
       [''green'', ''red blue'', ''red green blue'', ''blue red''] = [0, 1, 2 / 3, 1]"
    by code_simp
  from retrieveRelevantContext_stable_top3 [of colourService "''Red Blue''"] e
  have "retrieveRelevantContext colourServiceRenamed ''Red Blue'' =
        retrieveRelevantContext colourService ''Red Blue''"
    by blast
  with e v sc show ?thesis by simp
qed

text \<open>The rule-based reply, by key groups, and the five templates.\<close>

lemma generateWithRules_select:
  "generateWithRules email context =
     spec_selectTemplate [''interview'', ''schedule'', ''available'', ''when are you free'']
       (lowerCasedText email)"
  by (simp add: generateWithRules_def spec_selectTemplate_def lowerCasedText_def Let_def)

lemma templates_not_empty:
  "interviewTemplate \<noteq> []" "shortlistedTemplate \<noteq> []" "interestTemplate \<noteq> []"
  "technicalTemplate \<noteq> []" "defaultTemplate \<noteq> []"
  by (simp_all add: interviewTemplate_def shortlistedTemplate_def interestTemplate_def
      technicalTemplate_def defaultTemplate_def)

lemma generateWithRules_not_empty: "generateWithRules email context \<noteq> []"
  by (simp add: generateWithRules_def Let_def templates_not_empty)

lemma generateWithOpenAI_cases:
  "generateWithOpenAI create email context =
     Inr (case create (buildPrompt email context) of
            Choices (Some s # cs) \<Rightarrow> if s = [] then generateWithRules email context else s
          | _ \<Rightarrow> generateWithRules email context)"
  by (simp add: generateWithOpenAI_def generateWithOpenAI_try_def
      split: completion.split list.split option.split)

text \<open>
  C7 (as amended). generateReply returns a string, never an exception, and the string
  is not empty. When the generation collaborator is absent, fails or returns empty
  content, the string is the template selected by the first key group with a key
  occurring in the lower-cased subject and body: "interview", "schedule", "available"
  or "when are you free"; "shortlisted", "selected" or "congratulations"; "interested",
  "opportunity" or "position"; "technical", "skills" or "experience"; else the generic
  template. Otherwise it is the content of the first choice.
\<close>

theorem generateReply_total:
  "\<exists>reply. generateReply rag email = Inr reply \<and> reply \<noteq> []
     \<and> (spec_degraded rag email \<longrightarrow>
          reply = spec_selectTemplate
                    [''interview'', ''schedule'', ''available'', ''when are you free'']
                    (lowerCasedText email)
          \<and> reply \<in> {interviewTemplate, shortlistedTemplate, interestTemplate,
                       technicalTemplate, defaultTemplate})
     \<and> (\<forall>create s cs. openai rag = Some create
           \<and> create (buildPrompt email
                 (retrieveRelevantContext rag (subject email @ '' '' @ body email)))
               = Choices (Some s # cs)
           \<and> s \<noteq> [] \<longrightarrow> reply = s)"
proof (cases "openai rag")
  case None
  then have "generateReply rag email =
      Inr (generateWithRules email
            (retrieveRelevantContext rag (subject email @ '' '' @ body email)))"
    by (simp add: generateReply_def Let_def)
  moreover have "spec_selectTemplate
      [''interview'', ''schedule'', ''available'', ''when are you free'']
      (lowerCasedText email)
      \<in> {interviewTemplate, shortlistedTemplate, interestTemplate, technicalTemplate,
          defaultTemplate}"
    by (simp add: spec_selectTemplate_def)
  ultimately show ?thesis
    using None generateWithRules_not_empty [of email]
    by (simp add: generateWithRules_select)
next
  case (Some create)
  let ?ctx = "retrieveRelevantContext rag (subject email @ '' '' @ body email)"
  have g: "generateReply rag email = generateWithOpenAI create email ?ctx"
    using Some by (simp add: generateReply_def Let_def)
  have sel: "spec_selectTemplate
      [''interview'', ''schedule'', ''available'', ''when are you free'']
      (lowerCasedText email)
      \<in> {interviewTemplate, shortlistedTemplate, interestTemplate, technicalTemplate,
          defaultTemplate}"
    by (simp add: spec_selectTemplate_def)
  show ?thesis
  proof (cases "create (buildPrompt email ?ctx)")
    case Throws
    with g Some sel show ?thesis
      using generateWithRules_not_empty [of email ?ctx]
      by (simp add: generateWithOpenAI_cases generateWithRules_select)
  next
    case (Choices cs)
    show ?thesis
    proof (cases cs)
      case Nil
      with g Some sel Choices show ?thesis
        using generateWithRules_not_empty [of email ?ctx]
        by (simp add: generateWithOpenAI_cases generateWithRules_select)
    next
      case (Cons c cs')
      show ?thesis
      proof (cases c)
        case None
        with g Some sel Choices Cons show ?thesis
          using generateWithRules_not_empty [of email ?ctx]
          by (simp add: generateWithOpenAI_cases generateWithRules_select)
      next
        case (Some s)
        show ?thesis
        proof (cases "s = []")
          case True
          with g \<open>openai rag = Some create\<close> sel Choices Cons Some show ?thesis
            using generateWithRules_not_empty [of email ?ctx]
            by (simp add: generateWithOpenAI_cases generateWithRules_select)
        next
          case False
          with g \<open>openai rag = Some create\<close> Choices Cons Some show ?thesis
            by (simp add: generateWithOpenAI_cases spec_degraded_def)
        qed
      qed
    qed
  qed
qed

theorem generateReply_total_witness:
  "spec_degraded failingService freeEmail
   \<and> generateReply failingService freeEmail = Inr interviewTemplate
   \<and> interviewTemplate \<noteq> []"
proof -
  have d: "spec_degraded failingService freeEmail"
    by (simp add: spec_degraded_def failingService_def initializeVectorDB_def)
  have v: "spec_selectTemplate
      [''interview'', ''schedule'', ''available'', ''when are you free'']
      (lowerCasedText freeEmail) = interviewTemplate"
    by code_simp
  from generateReply_total [of failingService freeEmail] d v
  have "generateReply failingService freeEmail = Inr interviewTemplate" by auto
  with d show ?thesis by (simp add: templates_not_empty)
qed

text \<open>
  C7 as stated fails in its list of keys. Without a generation collaborator, the reply
  to a message that asks "When are you free this week?" and has none of the keys
  "interview", "schedule", "available" is the interview template, not the generic one
  that the listed key groups select.
\<close>

theorem generateReply_keys_counterexample:
  "spec_degraded rulesOnlyService freeEmail
   \<and> generateReply rulesOnlyService freeEmail = Inr interviewTemplate
   \<and> spec_selectTemplate [''interview'', ''schedule'', ''available'']
        (lowerCasedText freeEmail) = defaultTemplate
   \<and> interviewTemplate \<noteq> defaultTemplate"
proof -
  have d: "spec_degraded rulesOnlyService freeEmail"
    by (simp add: spec_degraded_def rulesOnlyService_def initializeVectorDB_def)
  have "openai rulesOnlyService = None"
    by (simp add: rulesOnlyService_def initializeVectorDB_def)
  then have g: "generateReply rulesOnlyService freeEmail =
      Inr (spec_selectTemplate
            [''interview'', ''schedule'', ''available'', ''when are you free'']
            (lowerCasedText freeEmail))"
    by (simp add: generateReply_def Let_def generateWithRules_select)
  have v: "spec_selectTemplate
      [''interview'', ''schedule'', ''available'', ''when are you free'']
      (lowerCasedText freeEmail) = interviewTemplate"
    by code_simp
  have w: "spec_selectTemplate [''interview'', ''schedule'', ''available'']
      (lowerCasedText freeEmail) = defaultTemplate"
    by code_simp
  have n: "interviewTemplate \<noteq> defaultTemplate"
    by (simp add: interviewTemplate_def defaultTemplate_def)
  from d g v w n show ?thesis by simp
qed

section \<open>Facts about the coordinator and the controller\<close>

lemma trace_sendSlackNotification:
  "trace (sendSlackNotification env email w) =
     trace w @ SlackNotification email #
       (if slackWebhookUrl env = [] then [] else [HttpPost (slackWebhookUrl env)])"
  by (simp add: sendSlackNotification_def axios_post_def Let_def)

lemma store_sendSlackNotification: "store (sendSlackNotification env email w) = store w"
  by (simp add: sendSlackNotification_def axios_post_def Let_def)

lemma trace_triggerWebhook:
  "trace (triggerWebhook env email w) =
     trace w @ WebhookNotification email #
       (if webhookUrl env = [] then [] else [HttpPost (webhookUrl env)])"
  by (simp add: triggerWebhook_def axios_post_def Let_def)

lemma store_triggerWebhook: "store (triggerWebhook env email w) = store w"
  by (simp add: triggerWebhook_def axios_post_def Let_def)

lemma store_notifyInterestedEmail: "store (notifyInterestedEmail env email w) = store w"
  by (simp add: notifyInterestedEmail_def store_triggerWebhook store_sendSlackNotification)

lemma trace_notifyInterestedEmail:
  "trace (notifyInterestedEmail env email w) =
     trace w @
       (if category email = Some INTERESTED
        then SlackNotification email #
             (if slackWebhookUrl env = [] then [] else [HttpPost (slackWebhookUrl env)]) @
             WebhookNotification email #
             (if webhookUrl env = [] then [] else [HttpPost (webhookUrl env)])
        else [])"
  by (simp add: notifyInterestedEmail_def trace_triggerWebhook trace_sendSlackNotification)

lemma trace_handleNewEmail_notified:
  assumes "indexSucceeds env (email\<lparr>category := Some (categorizeEmail email)\<rparr>)"
    and "categorizeEmail email = INTERESTED"
  shows "trace (handleNewEmail env email w) =
     trace w @ IndexRequest (email\<lparr>category := Some (categorizeEmail email)\<rparr>) #
       SlackNotification (email\<lparr>category := Some (categorizeEmail email)\<rparr>) #
       (if slackWebhookUrl env = [] then [] else [HttpPost (slackWebhookUrl env)]) @
       WebhookNotification (email\<lparr>category := Some (categorizeEmail email)\<rparr>) #
       (if webhookUrl env = [] then [] else [HttpPost (webhookUrl env)])"
  using assms
  by (simp add: handleNewEmail_def indexEmail_def Let_def trace_notifyInterestedEmail)

lemma trace_handleNewEmail_silent:
  assumes "\<not> (indexSucceeds env (email\<lparr>category := Some (categorizeEmail email)\<rparr>)
      \<and> categorizeEmail email = INTERESTED)"
  shows "trace (handleNewEmail env email w) =
     trace w @ [IndexRequest (email\<lparr>category := Some (categorizeEmail email)\<rparr>)]"
proof (cases "indexSucceeds env (email\<lparr>category := Some (categorizeEmail email)\<rparr>)")
  case True
  with assms have "categorizeEmail email \<noteq> INTERESTED" by simp
  with True show ?thesis
    by (simp add: handleNewEmail_def indexEmail_def Let_def trace_notifyInterestedEmail)
next
  case False
  then show ?thesis
    by (simp add: handleNewEmail_def indexEmail_def Let_def)
qed

lemma store_handleNewEmail:
  "store (handleNewEmail env email w) =
     (if indexSucceeds env (email\<lparr>category := Some (categorizeEmail email)\<rparr>)
      then (store w)(email_id email \<mapsto> email\<lparr>category := Some (categorizeEmail email)\<rparr>)
      else store w)"
  by (simp add: handleNewEmail_def indexEmail_def Let_def store_notifyInterestedEmail)

text \<open>
  C6 (as amended). For every message that handleNewEmail receives, with \<open>m\<close> the message
  with its assigned category: the first request is the index request for \<open>m\<close>, and
  everything after it is a notification request. The notification senders are invoked
  iff the index request succeeded and the category is Interested. When the index request
  succeeded, the index holds \<open>m\<close> under the id of the message afterwards, whether the
  posts of the notification succeed or fail; when it failed, the index is unchanged.
\<close>

theorem handleNewEmail_order:
  "\<exists>notes.
     trace (handleNewEmail env email w) =
       trace w @ IndexRequest (email\<lparr>category := Some (categorizeEmail email)\<rparr>) # notes
     \<and> (\<forall>x \<in> set notes.
           x = SlackNotification (email\<lparr>category := Some (categorizeEmail email)\<rparr>)
           \<or> x = WebhookNotification (email\<lparr>category := Some (categorizeEmail email)\<rparr>)
           \<or> x = HttpPost (slackWebhookUrl env) \<or> x = HttpPost (webhookUrl env))
     \<and> (SlackNotification (email\<lparr>category := Some (categorizeEmail email)\<rparr>) \<in> set notes
          \<and> WebhookNotification (email\<lparr>category := Some (categorizeEmail email)\<rparr>) \<in> set notes
        \<longleftrightarrow> indexSucceeds env (email\<lparr>category := Some (categorizeEmail email)\<rparr>)
            \<and> categorizeEmail email = INTERESTED)
     \<and> (notes \<noteq> []
        \<longleftrightarrow> indexSucceeds env (email\<lparr>category := Some (categorizeEmail email)\<rparr>)
            \<and> categorizeEmail email = INTERESTED)
     \<and> (indexSucceeds env (email\<lparr>category := Some (categorizeEmail email)\<rparr>)
        \<longrightarrow> store (handleNewEmail env email w) (email_id email) =
              Some (email\<lparr>category := Some (categorizeEmail email)\<rparr>)
            \<and> (\<forall>i. i \<noteq> email_id email \<longrightarrow> store (handleNewEmail env email w) i = store w i))
     \<and> (\<not> indexSucceeds env (email\<lparr>category := Some (categorizeEmail email)\<rparr>)
        \<longrightarrow> store (handleNewEmail env email w) = store w)"
proof (cases "indexSucceeds env (email\<lparr>category := Some (categorizeEmail email)\<rparr>)
    \<and> categorizeEmail email = INTERESTED")
  case True
  let ?m = "email\<lparr>category := Some (categorizeEmail email)\<rparr>"
  let ?notes = "SlackNotification ?m #
       (if slackWebhookUrl env = [] then [] else [HttpPost (slackWebhookUrl env)]) @
       WebhookNotification ?m #
       (if webhookUrl env = [] then [] else [HttpPost (webhookUrl env)])"
  have t: "trace (handleNewEmail env email w) = trace w @ IndexRequest ?m # ?notes"
    by (rule trace_handleNewEmail_notified [OF True [THEN conjunct1] True [THEN conjunct2]])
  have k: "\<forall>x \<in> set ?notes. x = SlackNotification ?m \<or> x = WebhookNotification ?m
      \<or> x = HttpPost (slackWebhookUrl env) \<or> x = HttpPost (webhookUrl env)"
    by auto
  have n: "SlackNotification ?m \<in> set ?notes \<and> WebhookNotification ?m \<in> set ?notes"
    by simp
  have ne: "?notes \<noteq> []" by simp
  have st: "store (handleNewEmail env email w) = (store w)(email_id email \<mapsto> ?m)"
    using True [THEN conjunct1] by (simp only: store_handleNewEmail if_True)
  note a = True [THEN conjunct1] and b = True [THEN conjunct2]
  show ?thesis
    apply (rule exI [of _ ?notes])
    using a b t k n ne st by simp
next
  case False
  let ?m = "email\<lparr>category := Some (categorizeEmail email)\<rparr>"
  have t: "trace (handleNewEmail env email w) = trace w @ [IndexRequest ?m]"
    by (rule trace_handleNewEmail_silent [OF False])
  have st: "store (handleNewEmail env email w) =
      (if indexSucceeds env ?m then (store w)(email_id email \<mapsto> ?m) else store w)"
    by (rule store_handleNewEmail)
  show ?thesis
    apply (rule exI [of _ "[]"])
    using False t st by auto
qed

theorem handleNewEmail_order_witness:
  "indexSucceeds flakyHooksEnv (interviewEmail\<lparr>category := Some (categorizeEmail interviewEmail)\<rparr>)
   \<and> \<not> postSucceeds flakyHooksEnv (slackWebhookUrl flakyHooksEnv)
   \<and> \<not> postSucceeds flakyHooksEnv (webhookUrl flakyHooksEnv)
   \<and> categorizeEmail interviewEmail = INTERESTED
   \<and> store (handleNewEmail flakyHooksEnv interviewEmail emptyWorld) ''account1-2'' =
       Some (interviewEmail\<lparr>category := Some INTERESTED\<rparr>)"
proof -
  have c: "categorizeEmail interviewEmail = INTERESTED" by code_simp
  have i: "indexSucceeds flakyHooksEnv
      (interviewEmail\<lparr>category := Some (categorizeEmail interviewEmail)\<rparr>)"
    by (simp add: flakyHooksEnv_def)
  have p: "\<not> postSucceeds flakyHooksEnv (slackWebhookUrl flakyHooksEnv)"
    "\<not> postSucceeds flakyHooksEnv (webhookUrl flakyHooksEnv)"
    by (simp_all add: flakyHooksEnv_def)
  have n: "email_id interviewEmail = ''account1-2''"
    by (simp add: interviewEmail_def)
  from handleNewEmail_order [of flakyHooksEnv interviewEmail emptyWorld] i
  have "store (handleNewEmail flakyHooksEnv interviewEmail emptyWorld)
          (email_id interviewEmail) =
        Some (interviewEmail\<lparr>category := Some (categorizeEmail interviewEmail)\<rparr>)"
    by blast
  with c i p n show ?thesis by simp
qed

text \<open>
  C6 as stated fails when the index request fails: the message is Interested, and no
  notification sender is invoked.
\<close>

theorem handleNewEmail_counterexample:
  "categorizeEmail interviewEmail = INTERESTED
   \<and> trace (handleNewEmail downEnv interviewEmail emptyWorld) =
       [IndexRequest (interviewEmail\<lparr>category := Some INTERESTED\<rparr>)]"
proof -
  have c: "categorizeEmail interviewEmail = INTERESTED" by code_simp
  have "\<not> (indexSucceeds downEnv (interviewEmail\<lparr>category := Some (categorizeEmail interviewEmail)\<rparr>)
      \<and> categorizeEmail interviewEmail = INTERESTED)"
    by (simp add: downEnv_def)
  then have "trace (handleNewEmail downEnv interviewEmail emptyWorld) =
      trace emptyWorld @ [IndexRequest (interviewEmail\<lparr>category := Some (categorizeEmail interviewEmail)\<rparr>)]"
    by (rule trace_handleNewEmail_silent)
  with c show ?thesis
    by (simp add: emptyWorld_def)
qed





section \<open>Facts about the mailbox connector\<close>













end
